theory Spec2Isabelle
  imports Complex_Main
begin

section \<open>The round state machine of \<open>src/components/GameBoard.tsx\<close>\<close>

text \<open>
  The component keeps one \<open>GameState\<close> value and replaces it through React's
  \<open>setGameState\<close>. Every handler reads the state of the current render (\<open>gameState\<close>)
  for its guards and queues functional updaters (\<open>prev => ...\<close>) that React applies in the
  order they were queued. The embedding keeps that shape: a handler maps the rendered state
  to the list of updaters it queues, and \<open>dispatch\<close> runs the list on that state.
  Each handler is a \<open>useCallback\<close> whose dependency list holds every field its guards
  read, so the state a handler sees is the current one; inside \<open>handleBlockClick\<close> the
  second updater still takes \<open>newRevealed\<close>, \<open>newScore\<close> and \<open>newMultiplier\<close> from
  the rendered state and the rest from the state the debit updater returned.

  JavaScript numbers are idealised as reals (no rounding, no \<open>NaN\<close>, no infinities).
  \<open>Math.random()\<close> is an explicit stream of draws \<open>rnd\<close>, so a re-drawn grid is a
  function of the stream. The calls to \<open>playGameSound\<close> only play audio and are left out.
\<close>

subsection \<open>Settings (lines 10-15)\<close>

record GameSettings =
  gridSize :: nat
  maxMines :: nat
  baseMultiplier :: real
  riskFactor :: real

definition GAME_SETTINGS :: GameSettings where
  "GAME_SETTINGS = \<lparr> gridSize = 25, maxMines = 15, baseMultiplier = 12 / 10, riskFactor = 1 / 10 \<rparr>"

subsection \<open>JavaScript boolean arrays\<close>

text \<open>
  \<open>revealed\<close> is written at an index the handler never checks, so the model spells out
  what a JavaScript array does there. \<open>elems\<close> are the indexed elements; a hole or
  \<open>undefined\<close> is kept as \<open>False\<close>, which is how every read of the component sees it
  (\<open>a[i]\<close> in a condition, \<open>some(Boolean)\<close>, \<open>filter(Boolean)\<close>). \<open>keys\<close> are the
  negative keys that hold \<open>true\<close>: \<open>a[-1] = true\<close> does not touch the elements, it sets
  a property of the array object. Indices are integers (\<open>int\<close>); the view only ever
  passes the positions of \<open>blocks.map\<close>.
\<close>

datatype barray = BArray (elems: "bool list") (keys: "int list")

definition arr_get :: "barray \<Rightarrow> int \<Rightarrow> bool" where
  \<comment> \<open>truthiness of \<open>a[i]\<close>; out of range it is \<open>undefined\<close>, which is falsy\<close>
  "arr_get a i =
     (if 0 \<le> i then nat i < length (elems a) \<and> elems a ! nat i else i \<in> set (keys a))"

definition arr_some :: "barray \<Rightarrow> bool" where
  \<comment> \<open>\<open>a.some(Boolean)\<close>: visits the indexed elements only\<close>
  "arr_some a = list_ex (\<lambda>b. b) (elems a)"

definition arr_spread :: "barray \<Rightarrow> barray" where
  \<comment> \<open>\<open>[...a]\<close>: copies the indexed elements, drops every other property\<close>
  "arr_spread a = BArray (elems a) []"

definition arr_set_true :: "barray \<Rightarrow> int \<Rightarrow> barray" where
  \<comment> \<open>\<open>a[i] = true\<close>: past the end the array grows, a negative key becomes a property\<close>
  "arr_set_true a i =
     (if 0 \<le> i then
        (if nat i < length (elems a) then BArray ((elems a)[nat i := True]) (keys a)
         else BArray (elems a @ replicate (nat i - length (elems a)) False @ [True]) (keys a))
      else BArray (elems a) (List.insert i (keys a)))"

definition blocks_get :: "bool list \<Rightarrow> int \<Rightarrow> bool" where
  \<comment> \<open>truthiness of \<open>gameState.blocks[index]\<close>; \<open>blocks\<close> is never written by index\<close>
  "blocks_get bs i = (0 \<le> i \<and> nat i < length bs \<and> bs ! nat i)"

subsection \<open>State (type \<open>GameState\<close>, built at lines 17-31)\<close>

record GameState =
  blocks :: "bool list"
  revealed :: barray
  gameOver :: bool
  score :: nat
  stake :: real
  multiplier :: real
  potentialPayout :: real
  mineCount :: real
  balance :: real
  isPlaying :: bool
  isLockedIn :: bool

definition drawBlocks :: "nat \<Rightarrow> real \<Rightarrow> (nat \<Rightarrow> real) \<Rightarrow> bool list" where
  \<comment> \<open>\<open>Array(n).fill(false).map(() => Math.random() >= mineCount / n)\<close>\<close>
  "drawBlocks n mc rnd = map (\<lambda>i. rnd i \<ge> mc / real n) [0..<n]"

definition initialGameState :: "GameSettings \<Rightarrow> real \<Rightarrow> real \<Rightarrow> (nat \<Rightarrow> real) \<Rightarrow> GameState" where
  "initialGameState settings mc savedBalance rnd =
     \<lparr> blocks = drawBlocks (gridSize settings) mc rnd,
       revealed = BArray (replicate (gridSize settings) False) [],
       gameOver = False,
       score = 0,
       stake = 1,
       multiplier = baseMultiplier settings,
       potentialPayout = baseMultiplier settings,
       mineCount = mc,
       balance = savedBalance,
       isPlaying = False,
       isLockedIn = False \<rparr>"

subsection \<open>Payout helpers of \<open>utils/gameCalculations\<close>\<close>

definition calculatePotentialPayout :: "real \<Rightarrow> real \<Rightarrow> real" where
  \<comment> \<open>Modelled from the spec: \<open>utils/gameCalculations\<close> is not among the sources; section 4.1
      gives \<open>potentialPayout(stake, multiplier)\<close> as stake times multiplier.\<close>
  "calculatePotentialPayout st m = st * m"

text \<open>
  \<open>calculateMultiplier\<close> lives in the same missing module and the specification fixes
  only its contract, not its formula. The handlers therefore take it as a parameter
  \<open>cm\<close> (base multiplier, risk factor, safe reveals so far).
\<close>

type_synonym multiplierFn = "real \<Rightarrow> real \<Rightarrow> nat \<Rightarrow> real"

definition compoundMultiplier :: multiplierFn where
  \<comment> \<open>Modelled from the spec: one function meeting the contract of section 4.1 (the base
      multiplier at zero safe reveals, compounding growth by the risk factor). It is used
      only to run the handlers on concrete inputs.\<close>
  "compoundMultiplier b r n = b * (1 + r) ^ n"

subsection \<open>Updaters and their dispatch\<close>

type_synonym updater = "GameState \<Rightarrow> GameState"

definition dispatch :: "(GameState \<Rightarrow> updater list) \<Rightarrow> GameState \<Rightarrow> GameState" where
  \<comment> \<open>the handler runs against the rendered state; React then applies the queued updaters
      in order, each on the result of the one before\<close>
  "dispatch handler gameState = fold (\<lambda>u prev. u prev) (handler gameState) gameState"

subsection \<open>Handlers (lines 50-147)\<close>

definition handleDeposit :: "real \<Rightarrow> GameState \<Rightarrow> updater list" where
  "handleDeposit amount gameState = [\<lambda>prev. prev\<lparr> balance := balance prev + amount \<rparr>]"

definition handleStakeChange :: "real \<Rightarrow> GameState \<Rightarrow> updater list" where
  "handleStakeChange newStake gameState =
     (if newStake \<le> balance gameState then
        [\<lambda>prev. prev\<lparr> stake := newStake,
                       potentialPayout := calculatePotentialPayout newStake (multiplier prev) \<rparr>]
      else [])"

definition handleMineCountChange :: "(nat \<Rightarrow> real) \<Rightarrow> real \<Rightarrow> GameState \<Rightarrow> updater list" where
  "handleMineCountChange rnd newMineCount gameState =
     (if \<not> arr_some (revealed gameState) then
        [\<lambda>prev. prev\<lparr> blocks := drawBlocks (gridSize GAME_SETTINGS) newMineCount rnd,
                       mineCount := newMineCount \<rparr>]
      else [])"

definition handleNewGame :: "(nat \<Rightarrow> real) \<Rightarrow> GameState \<Rightarrow> updater list" where
  "handleNewGame rnd gameState =
     [\<lambda>prev. (initialGameState GAME_SETTINGS (mineCount prev) (balance prev) rnd)
                \<lparr> stake := stake prev \<rparr>]"

definition handleLockIn :: "GameState \<Rightarrow> updater list" where
  "handleLockIn gameState =
     (if stake gameState \<le> balance gameState then [\<lambda>prev. prev\<lparr> isLockedIn := True \<rparr>]
      else [])"

definition handleBlockClick :: "multiplierFn \<Rightarrow> int \<Rightarrow> GameState \<Rightarrow> updater list" where
  "handleBlockClick cm index gameState =
     (if arr_get (revealed gameState) index \<or> gameOver gameState \<or> \<not> isLockedIn gameState
      then []
      else
        let isFirstClick = \<not> arr_some (revealed gameState) in
        if isFirstClick \<and> stake gameState > balance gameState then []
        else
          let debit = (if isFirstClick
                       then [\<lambda>prev. prev\<lparr> balance := balance prev - stake prev,
                                           isPlaying := True \<rparr>]
                       else []);
              newRevealed = arr_set_true (arr_spread (revealed gameState)) index
          in
          if blocks_get (blocks gameState) index then
            let newScore = score gameState + 1;
                newMultiplier = cm (baseMultiplier GAME_SETTINGS) (riskFactor GAME_SETTINGS) newScore
            in debit @
               [\<lambda>prev. prev\<lparr> revealed := newRevealed,
                              score := newScore,
                              multiplier := newMultiplier,
                              potentialPayout := calculatePotentialPayout (stake prev) newMultiplier \<rparr>]
          else
            debit @
            [\<lambda>prev. prev\<lparr> revealed := newRevealed, gameOver := True, isPlaying := False \<rparr>])"

definition handleCashout :: "(nat \<Rightarrow> real) \<Rightarrow> GameState \<Rightarrow> updater list" where
  "handleCashout rnd gameState =
     [\<lambda>prev. (initialGameState GAME_SETTINGS (mineCount prev)
                 (balance prev + stake prev * multiplier prev) rnd)
                \<lparr> stake := stake prev \<rparr>]"

subsection \<open>The action surface\<close>

definition deposit :: "real \<Rightarrow> GameState \<Rightarrow> GameState" where
  "deposit amount = dispatch (handleDeposit amount)"

definition setStake :: "real \<Rightarrow> GameState \<Rightarrow> GameState" where
  "setStake newStake = dispatch (handleStakeChange newStake)"

definition setHazardCount :: "(nat \<Rightarrow> real) \<Rightarrow> real \<Rightarrow> GameState \<Rightarrow> GameState" where
  "setHazardCount rnd n = dispatch (handleMineCountChange rnd n)"

definition newRound :: "(nat \<Rightarrow> real) \<Rightarrow> GameState \<Rightarrow> GameState" where
  "newRound rnd = dispatch (handleNewGame rnd)"

definition lockIn :: "GameState \<Rightarrow> GameState" where
  "lockIn = dispatch handleLockIn"

definition reveal :: "multiplierFn \<Rightarrow> int \<Rightarrow> GameState \<Rightarrow> GameState" where
  "reveal cm index = dispatch (handleBlockClick cm index)"

definition cashOut :: "(nat \<Rightarrow> real) \<Rightarrow> GameState \<Rightarrow> GameState" where
  "cashOut rnd = dispatch (handleCashout rnd)"

subsection \<open>Action sequences\<close>

text \<open>
  The host dispatches one action at a time and re-renders in between, so a sequence of
  actions is a left-to-right run of \<open>step\<close>. The actions that draw a new grid carry the
  stream of random draws they consume.
\<close>

datatype action =
    Deposit real
  | SetStake real
  | SetHazardCount "nat \<Rightarrow> real" real
  | NewRound "nat \<Rightarrow> real"
  | LockIn
  | Reveal int
  | CashOut "nat \<Rightarrow> real"

fun step :: "multiplierFn \<Rightarrow> action \<Rightarrow> GameState \<Rightarrow> GameState" where
  "step cm (Deposit amount) s = deposit amount s"
| "step cm (SetStake newStake) s = setStake newStake s"
| "step cm (SetHazardCount rnd n) s = setHazardCount rnd n s"
| "step cm (NewRound rnd) s = newRound rnd s"
| "step cm LockIn s = lockIn s"
| "step cm (Reveal index) s = reveal cm index s"
| "step cm (CashOut rnd) s = cashOut rnd s"

definition run :: "multiplierFn \<Rightarrow> action list \<Rightarrow> GameState \<Rightarrow> GameState" where
  "run cm acts s = fold (step cm) acts s"

fun nonnegAmounts :: "action \<Rightarrow> bool" where
  \<comment> \<open>the amounts a player types in (deposit, stake) are not negative\<close>
  "nonnegAmounts (Deposit amount) = (0 \<le> amount)"
| "nonnegAmounts (SetStake newStake) = (0 \<le> newStake)"
| "nonnegAmounts _ = True"

fun nonnegDeposit :: "action \<Rightarrow> bool" where
  \<comment> \<open>only the deposit amounts are constrained\<close>
  "nonnegDeposit (Deposit amount) = (0 \<le> amount)"
| "nonnegDeposit _ = True"

fun sameRound :: "action \<Rightarrow> bool" where
  \<comment> \<open>the actions that do not rebuild the state with \<open>initialGameState\<close>\<close>
  "sameRound (NewRound _) = False"
| "sameRound (CashOut _) = False"
| "sameRound _ = True"

definition constDraws :: "real \<Rightarrow> nat \<Rightarrow> real" where
  \<comment> \<open>a stream of draws that are all \<open>c\<close>: with \<open>c = 1\<close> every cell of a drawn grid is safe,
      with \<open>c = 0\<close> (and a positive mine count) every cell is a hazard\<close>
  "constDraws c i = c"

definition oneSafeDraws :: "nat \<Rightarrow> real" where
  \<comment> \<open>a stream whose first draw is 1 and whose other draws are 0: cell 0 of a drawn grid is
      safe and, with a positive mine count, every other cell is a hazard\<close>
  "oneSafeDraws i = (if i = 0 then 1 else 0)"

section \<open>Properties\<close>

subsection \<open>Array facts\<close>

lemma arr_get_set_true: "arr_get (arr_set_true a i) i"
  by (simp add: arr_get_def arr_set_true_def nth_append)

lemma arr_some_spread: "arr_some (arr_spread a) = arr_some a"
  by (simp add: arr_some_def arr_spread_def)

lemma arr_some_iff: "arr_some a = (True \<in> set (elems a))"
  by (auto simp add: arr_some_def list_ex_iff)

lemma arr_some_set_true_nonneg: "0 \<le> i \<Longrightarrow> arr_some (arr_set_true a i)"
  by (simp add: arr_some_iff arr_set_true_def set_update_memI)

lemma True_in_update: "True \<in> set xs \<Longrightarrow> True \<in> set (xs[n := True])"
proof (induction xs arbitrary: n)
  case Nil
  then show ?case by simp
next
  case (Cons x xs)
  then show ?case by (cases n) auto
qed

lemma arr_some_set_true_keep: "arr_some a \<Longrightarrow> arr_some (arr_set_true a i)"
  by (simp add: arr_some_iff arr_set_true_def True_in_update)

lemma blocks_get_outside: "i < 0 \<or> int (length bs) \<le> i \<Longrightarrow> \<not> blocks_get bs i"
  by (auto simp add: blocks_get_def)

lemmas handler_defs =
  dispatch_def handleDeposit_def handleStakeChange_def handleMineCountChange_def
  handleNewGame_def handleLockIn_def handleBlockClick_def handleCashout_def

lemmas action_defs =
  deposit_def setStake_def setHazardCount_def newRound_def lockIn_def reveal_def cashOut_def

subsection \<open>Unfolding the model on concrete inputs\<close>

lemmas eval_defs =
  run_def action_defs handler_defs initialGameState_def GAME_SETTINGS_def
  arr_get_def arr_some_iff blocks_get_def drawBlocks_def constDraws_def oneSafeDraws_def
  calculatePotentialPayout_def arr_set_true_def arr_spread_def Let_def compoundMultiplier_def
  set_update_memI

subsection \<open>The balance stays non-negative\<close>

lemma step_keeps_nonneg:
  assumes "0 \<le> balance s \<and> 0 \<le> stake s \<and> 0 \<le> multiplier s"
    and "\<forall>n. 0 \<le> cm (baseMultiplier GAME_SETTINGS) (riskFactor GAME_SETTINGS) n"
    and "nonnegAmounts a"
  shows "0 \<le> balance (step cm a s) \<and> 0 \<le> stake (step cm a s) \<and> 0 \<le> multiplier (step cm a s)"
proof (cases a)
  case (Deposit x)
  with assms show ?thesis by (simp add: action_defs handler_defs)
next
  case (SetStake x)
  with assms show ?thesis by (simp add: action_defs handler_defs)
next
  case (SetHazardCount r n)
  with assms show ?thesis by (simp add: action_defs handler_defs)
next
  case (NewRound r)
  with assms show ?thesis
    by (simp add: action_defs handler_defs initialGameState_def GAME_SETTINGS_def)
next
  case LockIn
  with assms show ?thesis by (simp add: action_defs handler_defs)
next
  case (Reveal i)
  with assms show ?thesis by (simp add: action_defs handler_defs Let_def)
next
  case (CashOut r)
  with assms show ?thesis
    by (simp add: action_defs handler_defs initialGameState_def GAME_SETTINGS_def)
qed

lemma run_keeps_nonneg:
  assumes "\<forall>n. 0 \<le> cm (baseMultiplier GAME_SETTINGS) (riskFactor GAME_SETTINGS) n"
  shows "0 \<le> balance s \<and> 0 \<le> stake s \<and> 0 \<le> multiplier s \<Longrightarrow>
     \<forall>a\<in>set acts. nonnegAmounts a \<Longrightarrow>
     0 \<le> balance (run cm acts s) \<and> 0 \<le> stake (run cm acts s) \<and> 0 \<le> multiplier (run cm acts s)"
proof (induction acts arbitrary: s)
  case Nil
  then show ?case by (simp add: run_def)
next
  case (Cons a acts)
  have "0 \<le> balance (step cm a s) \<and> 0 \<le> stake (step cm a s) \<and> 0 \<le> multiplier (step cm a s)"
    using step_keeps_nonneg[where cm=cm and a=a, OF Cons.prems(1) assms] Cons.prems(2) by simp
  from Cons.IH[OF this] Cons.prems(2) show ?case by (simp add: run_def)
qed

lemma compound_nonneg:
  "0 \<le> compoundMultiplier (baseMultiplier GAME_SETTINGS) (riskFactor GAME_SETTINGS) n"
  by (simp add: compoundMultiplier_def GAME_SETTINGS_def)

text \<open>
  C1 as stated fails: \<open>handleStakeChange\<close> accepts every stake up to the balance, a
  negative one too, and \<open>handleCashout\<close> then credits a negative amount. From the initial
  state with balance 0 and no deposit at all, setting the stake to -5 and cashing out leaves
  the balance at -6.
\<close>

theorem balance_negative_counterexample:
  "0 \<le> balance (initialGameState GAME_SETTINGS 5 0 (constDraws 0))
   \<and> nonnegDeposit (SetStake (- 5)) \<and> nonnegDeposit (CashOut (constDraws 0))
   \<and> balance (run compoundMultiplier [SetStake (- 5), CashOut (constDraws 0)]
        (initialGameState GAME_SETTINGS 5 0 (constDraws 0))) < 0"
  by (simp add: run_def action_defs handler_defs initialGameState_def GAME_SETTINGS_def
      calculatePotentialPayout_def)

text \<open>
  C1, amended. From a state whose balance, stake and multiplier are not negative (the
  initial state is one), for every sequence of actions in which every deposit amount and
  every stake passed to \<open>setStake\<close> is not negative, and with a multiplier function that
  returns no negative value, the balance after the sequence is not negative. Every prefix
  of such a sequence is such a sequence, so the balance is never negative on the way.
\<close>

theorem balance_never_negative:
  assumes "0 \<le> balance s" and "0 \<le> stake s" and "0 \<le> multiplier s"
    and "\<forall>n. 0 \<le> cm (baseMultiplier GAME_SETTINGS) (riskFactor GAME_SETTINGS) n"
    and "\<forall>a\<in>set acts. nonnegAmounts a"
  shows "0 \<le> balance (run cm acts s)"
  using run_keeps_nonneg[of cm s acts] assms by simp

theorem balance_never_negative_witness:
  "0 \<le> balance (run compoundMultiplier
      [Deposit 10, SetStake 2, LockIn, Reveal 0, CashOut (constDraws 0)]
      (initialGameState GAME_SETTINGS 5 0 (constDraws 1)))"
proof -
  let ?s = "initialGameState GAME_SETTINGS 5 0 (constDraws 1)"
  have a: "0 \<le> balance ?s" "0 \<le> stake ?s" "0 \<le> multiplier ?s"
    by (simp_all add: initialGameState_def GAME_SETTINGS_def)
  have b: "\<forall>n. 0 \<le> compoundMultiplier (baseMultiplier GAME_SETTINGS) (riskFactor GAME_SETTINGS) n"
    by (simp add: compound_nonneg)
  have c: "\<forall>a\<in>set [Deposit 10, SetStake 2, LockIn, Reveal 0, CashOut (constDraws 0)].
             nonnegAmounts a"
    by simp
  show ?thesis using balance_never_negative[where cm=compoundMultiplier, OF a b c] .
qed

subsection \<open>Reveals outside the grid\<close>

text \<open>
  C2 as stated fails: \<open>handleBlockClick\<close> has no bounds check. After a deposit of 10 and
  a lock-in, a click on index 25 of the 25-cell grid is not a no-op: \<open>blocks[25]\<close> is
  \<open>undefined\<close>, the hazard branch runs, the game is over and the stake of 1 is gone.
\<close>

theorem reveal_outside_counterexample:
  "\<not> (0 \<le> (25::int) \<and> (25::int) < int (gridSize GAME_SETTINGS))
   \<and> reveal compoundMultiplier 25
        (run compoundMultiplier [Deposit 10, LockIn]
           (initialGameState GAME_SETTINGS 5 0 (constDraws 1)))
      \<noteq> run compoundMultiplier [Deposit 10, LockIn]
           (initialGameState GAME_SETTINGS 5 0 (constDraws 1))
   \<and> \<not> gameOver (run compoundMultiplier [Deposit 10, LockIn]
           (initialGameState GAME_SETTINGS 5 0 (constDraws 1)))
   \<and> balance (run compoundMultiplier [Deposit 10, LockIn]
           (initialGameState GAME_SETTINGS 5 0 (constDraws 1))) = 10
   \<and> gameOver (reveal compoundMultiplier 25
        (run compoundMultiplier [Deposit 10, LockIn]
           (initialGameState GAME_SETTINGS 5 0 (constDraws 1))))
   \<and> balance (reveal compoundMultiplier 25
        (run compoundMultiplier [Deposit 10, LockIn]
           (initialGameState GAME_SETTINGS 5 0 (constDraws 1)))) = 9"
  by (simp add: eval_defs)

text \<open>
  C2, amended. For an index outside the grid, \<open>reveal\<close> is a no-op exactly when the
  handler's own guards stop it: \<open>revealed[index]\<close> is already set, the game is over, the
  stake is not locked in, or no cell is revealed yet and the stake exceeds the balance.
  In every other state the missing cell reads as a hazard: the game is over,
  \<open>isPlaying\<close> is false, \<open>revealed[index]\<close> is set, the stake is debited if this was the
  first reveal, and score and multiplier are unchanged.
\<close>

theorem reveal_outside_grid:
  assumes out: "index < 0 \<or> int (length (blocks s)) \<le> index"
  shows "(reveal cm index s = s) =
           (arr_get (revealed s) index \<or> gameOver s \<or> \<not> isLockedIn s
            \<or> (\<not> arr_some (revealed s) \<and> balance s < stake s))
         \<and> (reveal cm index s \<noteq> s \<longrightarrow>
              gameOver (reveal cm index s)
              \<and> \<not> isPlaying (reveal cm index s)
              \<and> arr_get (revealed (reveal cm index s)) index
              \<and> balance (reveal cm index s) =
                  (if arr_some (revealed s) then balance s else balance s - stake s)
              \<and> score (reveal cm index s) = score s
              \<and> multiplier (reveal cm index s) = multiplier s)"
proof -
  let ?rej = "arr_get (revealed s) index \<or> gameOver s \<or> \<not> isLockedIn s
            \<or> (\<not> arr_some (revealed s) \<and> balance s < stake s)"
  have hazard: "\<not> blocks_get (blocks s) index"
    using out by (rule blocks_get_outside)
  have rejected: "reveal cm index s = s" if "?rej"
    using that by (auto simp add: reveal_def handler_defs Let_def)
  have accepted: "gameOver (reveal cm index s)
              \<and> \<not> isPlaying (reveal cm index s)
              \<and> arr_get (revealed (reveal cm index s)) index
              \<and> balance (reveal cm index s) =
                  (if arr_some (revealed s) then balance s else balance s - stake s)
              \<and> score (reveal cm index s) = score s
              \<and> multiplier (reveal cm index s) = multiplier s" if "\<not> ?rej"
    using that hazard by (simp add: reveal_def handler_defs Let_def arr_get_set_true)
  have changed: "reveal cm index s \<noteq> s" if "\<not> ?rej"
  proof
    assume "reveal cm index s = s"
    with accepted[OF that] have "gameOver s" by simp
    with that show False by simp
  qed
  show ?thesis using rejected accepted changed by blast
qed

theorem reveal_outside_grid_witness:
  "gameOver (reveal compoundMultiplier (- 1)
      (run compoundMultiplier [Deposit 10, LockIn]
         (initialGameState GAME_SETTINGS 5 0 (constDraws 1))))
   \<and> balance (reveal compoundMultiplier (- 1)
      (run compoundMultiplier [Deposit 10, LockIn]
         (initialGameState GAME_SETTINGS 5 0 (constDraws 1)))) = 9"
proof -
  let ?s = "run compoundMultiplier [Deposit 10, LockIn]
              (initialGameState GAME_SETTINGS 5 0 (constDraws 1))"
  have out: "(- 1 :: int) < 0 \<or> int (length (blocks ?s)) \<le> - 1" by simp
  have st: "\<not> arr_get (revealed ?s) (- 1) \<and> \<not> gameOver ?s \<and> isLockedIn ?s
            \<and> \<not> arr_some (revealed ?s) \<and> balance ?s = 10 \<and> stake ?s = 1"
    by (simp add: run_def action_defs handler_defs initialGameState_def GAME_SETTINGS_def
        arr_get_def arr_some_iff)
  show ?thesis
    using reveal_outside_grid[where cm=compoundMultiplier, OF out] st by simp
qed

subsection \<open>Stake edits after a reveal\<close>

text \<open>
  C3. The claim is that \<open>setStake\<close> leaves the state unchanged once a cell is revealed.
  \<open>handleStakeChange\<close> tests only \<open>newStake <= gameState.balance\<close>; unlike
  \<open>handleMineCountChange\<close> it never looks at \<open>revealed\<close>. After a deposit of 10, a
  lock-in and a reveal of cell 0 (which debits the stake of 1), \<open>setStake 5\<close> is accepted:
  the stake becomes 5 and the state changes.
\<close>

theorem stake_edit_after_reveal:
  "arr_some (revealed (run compoundMultiplier [Deposit 10, LockIn, Reveal 0]
       (initialGameState GAME_SETTINGS 5 0 (constDraws 1))))
   \<and> stake (run compoundMultiplier [Deposit 10, LockIn, Reveal 0]
       (initialGameState GAME_SETTINGS 5 0 (constDraws 1))) = 1
   \<and> stake (setStake 5 (run compoundMultiplier [Deposit 10, LockIn, Reveal 0]
       (initialGameState GAME_SETTINGS 5 0 (constDraws 1)))) = 5
   \<and> setStake 5 (run compoundMultiplier [Deposit 10, LockIn, Reveal 0]
       (initialGameState GAME_SETTINGS 5 0 (constDraws 1)))
      \<noteq> run compoundMultiplier [Deposit 10, LockIn, Reveal 0]
       (initialGameState GAME_SETTINGS 5 0 (constDraws 1))"
  by (simp add: eval_defs)

subsection \<open>The displayed payout\<close>

text \<open>
  C4. The claim is that \<open>potentialPayout\<close> is stake times multiplier after every action,
  \<open>newRound\<close> and \<open>cashOut\<close> included. Both handlers take \<open>potentialPayout\<close> from
  \<open>initialGameState\<close>, where it is the base multiplier (right for the initial stake of 1),
  and then overwrite only \<open>stake\<close>. With a stake of 2 carried forward, the new round
  has \<open>potentialPayout\<close> 1.2 while stake times multiplier is 2.4.
\<close>

theorem payout_stale_after_new_round:
  "stake (newRound (constDraws 1)
      (run compoundMultiplier [Deposit 10, SetStake 2]
         (initialGameState GAME_SETTINGS 5 0 (constDraws 1)))) = 2
   \<and> multiplier (newRound (constDraws 1)
      (run compoundMultiplier [Deposit 10, SetStake 2]
         (initialGameState GAME_SETTINGS 5 0 (constDraws 1)))) = 12 / 10
   \<and> potentialPayout (newRound (constDraws 1)
      (run compoundMultiplier [Deposit 10, SetStake 2]
         (initialGameState GAME_SETTINGS 5 0 (constDraws 1)))) = 12 / 10
   \<and> potentialPayout (cashOut (constDraws 1)
      (run compoundMultiplier [Deposit 10, SetStake 2]
         (initialGameState GAME_SETTINGS 5 0 (constDraws 1)))) = 12 / 10
   \<and> stake (cashOut (constDraws 1)
      (run compoundMultiplier [Deposit 10, SetStake 2]
         (initialGameState GAME_SETTINGS 5 0 (constDraws 1))))
     * multiplier (cashOut (constDraws 1)
      (run compoundMultiplier [Deposit 10, SetStake 2]
         (initialGameState GAME_SETTINGS 5 0 (constDraws 1)))) = 24 / 10"
  by (simp add: eval_defs)

subsection \<open>The stake is debited once per round\<close>

lemma reveal_no_redebit:
  "arr_some (revealed s) \<or> gameOver s \<Longrightarrow> balance (reveal cm j s) = balance s"
  by (auto simp add: reveal_def handler_defs Let_def)

lemma reveal_marks_round:
  assumes "\<not> arr_get (revealed s) index" "\<not> gameOver s" "isLockedIn s"
    and "arr_some (revealed s) \<or> stake s \<le> balance s"
  shows "arr_some (revealed (reveal cm index s)) \<or> gameOver (reveal cm index s)"
proof (cases "blocks_get (blocks s) index")
  case True
  then have "0 \<le> index" by (simp add: blocks_get_def)
  then have "arr_some (arr_set_true (arr_spread (revealed s)) index)"
    by (rule arr_some_set_true_nonneg)
  with assms True show ?thesis by (auto simp add: reveal_def handler_defs Let_def)
next
  case False
  with assms show ?thesis by (auto simp add: reveal_def handler_defs Let_def)
qed

lemma step_keeps_round_mark:
  assumes "sameRound a" and "arr_some (revealed s) \<or> gameOver s"
  shows "arr_some (revealed (step cm a s)) \<or> gameOver (step cm a s)"
proof (cases a)
  case (Reveal i)
  have "arr_some (arr_set_true (arr_spread (revealed s)) i)" if "arr_some (revealed s)"
    using that by (simp add: arr_some_set_true_keep arr_some_spread)
  with assms Reveal show ?thesis by (auto simp add: reveal_def handler_defs Let_def)
qed (use assms in \<open>auto simp add: action_defs handler_defs\<close>)

lemma run_keeps_round_mark:
  "\<forall>a\<in>set acts. sameRound a \<Longrightarrow> arr_some (revealed s) \<or> gameOver s \<Longrightarrow>
   arr_some (revealed (run cm acts s)) \<or> gameOver (run cm acts s)"
proof (induction acts arbitrary: s)
  case Nil
  then show ?case by (simp add: run_def)
next
  case (Cons a acts)
  from Cons.prems have "arr_some (revealed (step cm a s)) \<or> gameOver (step cm a s)"
    by (simp add: step_keeps_round_mark)
  from Cons.IH[OF _ this] Cons.prems(1) show ?case by (simp add: run_def)
qed

text \<open>
  C5. Take a click that passes the handler's first guard (the cell is not revealed, the game
  is not over, the stake is locked in) in a round with no revealed cell. If the stake
  exceeds the balance the click is a no-op. Otherwise the first updater the handler queues
  takes the stake off the balance and sets \<open>isPlaying\<close>, and the state after the click
  has the balance less the stake (\<open>isPlaying\<close> stays true on a safe cell; the hazard
  updater resets it). After that click, whatever actions of the same round follow
  (deposits, stake and mine-count edits, lock-ins, reveals), a further reveal leaves the
  balance as it finds it: the stake is not debited again.
\<close>

theorem first_reveal_debits_once:
  assumes pass: "\<not> arr_get (revealed s) index" "\<not> gameOver s" "isLockedIn s"
    and first: "\<not> arr_some (revealed s)"
  shows "(balance s < stake s \<longrightarrow> reveal cm index s = s)
    \<and> (stake s \<le> balance s \<longrightarrow>
         balance (reveal cm index s) = balance s - stake s
         \<and> balance (hd (handleBlockClick cm index s) s) = balance s - stake s
         \<and> isPlaying (hd (handleBlockClick cm index s) s)
         \<and> isPlaying (reveal cm index s) = blocks_get (blocks s) index
         \<and> (\<forall>acts j. (\<forall>a\<in>set acts. sameRound a) \<longrightarrow>
               balance (reveal cm j (run cm acts (reveal cm index s)))
               = balance (run cm acts (reveal cm index s))))"
proof -
  have noop: "reveal cm index s = s" if "balance s < stake s"
    using that pass first by (simp add: reveal_def handler_defs Let_def)
  have debit: "balance (reveal cm index s) = balance s - stake s
         \<and> balance (hd (handleBlockClick cm index s) s) = balance s - stake s
         \<and> isPlaying (hd (handleBlockClick cm index s) s)
         \<and> isPlaying (reveal cm index s) = blocks_get (blocks s) index" if "stake s \<le> balance s"
    using that pass first by (simp add: reveal_def handler_defs Let_def)
  have later: "balance (reveal cm j (run cm acts (reveal cm index s)))
               = balance (run cm acts (reveal cm index s))"
    if "stake s \<le> balance s" and "\<forall>a\<in>set acts. sameRound a" for acts j
  proof -
    have "arr_some (revealed (reveal cm index s)) \<or> gameOver (reveal cm index s)"
      using pass that(1) by (simp add: reveal_marks_round)
    then have "arr_some (revealed (run cm acts (reveal cm index s)))
               \<or> gameOver (run cm acts (reveal cm index s))"
      using that(2) by (simp add: run_keeps_round_mark)
    then show ?thesis by (rule reveal_no_redebit)
  qed
  show ?thesis using noop debit later by blast
qed

theorem first_reveal_debits_once_witness:
  "balance (reveal compoundMultiplier 0
      (run compoundMultiplier [Deposit 10, LockIn]
         (initialGameState GAME_SETTINGS 5 0 (constDraws 1)))) = 9
   \<and> balance (reveal compoundMultiplier 2
        (run compoundMultiplier [Deposit 5, SetStake 3, Reveal 1]
          (reveal compoundMultiplier 0
            (run compoundMultiplier [Deposit 10, LockIn]
               (initialGameState GAME_SETTINGS 5 0 (constDraws 1))))))
     = balance (run compoundMultiplier [Deposit 5, SetStake 3, Reveal 1]
        (reveal compoundMultiplier 0
          (run compoundMultiplier [Deposit 10, LockIn]
             (initialGameState GAME_SETTINGS 5 0 (constDraws 1)))))"
proof -
  let ?s = "run compoundMultiplier [Deposit 10, LockIn]
              (initialGameState GAME_SETTINGS 5 0 (constDraws 1))"
  have pass: "\<not> arr_get (revealed ?s) 0" "\<not> gameOver ?s" "isLockedIn ?s"
    "\<not> arr_some (revealed ?s)"
    by (simp_all add: eval_defs)
  have st: "stake ?s \<le> balance ?s" "balance ?s = 10" "stake ?s = 1"
    by (simp_all add: eval_defs)
  have same: "\<forall>a\<in>set [Deposit 5, SetStake 3, Reveal 1]. sameRound a" by simp
  show ?thesis
    using first_reveal_debits_once[where cm=compoundMultiplier, OF pass] st same by simp
qed

subsection \<open>Revealing a hazard\<close>

text \<open>
  C6. A click that the handler accepts (cell not revealed, game not over, stake locked in,
  and the stake within the balance if no cell is revealed yet) on a cell of the grid that is
  a hazard ends the round: \<open>gameOver\<close> is true, \<open>isPlaying\<close> is false,
  \<open>revealed[index]\<close> is set, the balance is the balance after the debit (less the stake
  on a first reveal, unchanged on a later one; nothing is refunded), and score and
  multiplier are as before.
\<close>

theorem hazard_reveal:
  assumes "\<not> arr_get (revealed s) index" "\<not> gameOver s" "isLockedIn s"
    and "arr_some (revealed s) \<or> stake s \<le> balance s"
    and "0 \<le> index" "nat index < length (blocks s)" "\<not> blocks s ! nat index"
  shows "gameOver (reveal cm index s)
     \<and> \<not> isPlaying (reveal cm index s)
     \<and> arr_get (revealed (reveal cm index s)) index
     \<and> balance (reveal cm index s) =
         (if arr_some (revealed s) then balance s else balance s - stake s)
     \<and> score (reveal cm index s) = score s
     \<and> multiplier (reveal cm index s) = multiplier s"
proof -
  have "\<not> blocks_get (blocks s) index" using assms(7) by (simp add: blocks_get_def)
  with assms(1-4) show ?thesis
    by (auto simp add: reveal_def handler_defs Let_def arr_get_set_true)
qed

theorem hazard_reveal_witness:
  "gameOver (reveal compoundMultiplier 3
      (run compoundMultiplier [Deposit 10, LockIn]
         (initialGameState GAME_SETTINGS 5 0 (constDraws 0))))
   \<and> balance (reveal compoundMultiplier 3
      (run compoundMultiplier [Deposit 10, LockIn]
         (initialGameState GAME_SETTINGS 5 0 (constDraws 0)))) = 9"
proof -
  let ?s = "run compoundMultiplier [Deposit 10, LockIn]
              (initialGameState GAME_SETTINGS 5 0 (constDraws 0))"
  have pass: "\<not> arr_get (revealed ?s) 3" "\<not> gameOver ?s" "isLockedIn ?s"
     "arr_some (revealed ?s) \<or> stake ?s \<le> balance ?s"
    by (simp_all add: eval_defs)
  have cell: "(0::int) \<le> 3" "nat 3 < length (blocks ?s)" "\<not> blocks ?s ! nat 3"
    by (simp_all add: eval_defs)
  have st: "\<not> arr_some (revealed ?s)" "balance ?s = 10" "stake ?s = 1"
    by (simp_all add: eval_defs)
  show ?thesis
    using hazard_reveal[where cm=compoundMultiplier, OF pass cell] st by simp
qed

subsection \<open>Cash-out\<close>

text \<open>
  C7. In every state, \<open>cashOut\<close> sets the balance to the old balance plus stake times
  multiplier and yields a fresh round: \<open>revealed\<close> is \<open>gridSize\<close> entries, all false,
  the score is 0, the multiplier is the base multiplier, \<open>gameOver\<close>, \<open>isPlaying\<close> and
  \<open>isLockedIn\<close> are false, and the stake and the mine count are those of the state before.
\<close>

theorem cashOut_fresh_round:
  "balance (cashOut rnd s) = balance s + stake s * multiplier s
   \<and> revealed (cashOut rnd s) = BArray (replicate (gridSize GAME_SETTINGS) False) []
   \<and> \<not> arr_some (revealed (cashOut rnd s))
   \<and> score (cashOut rnd s) = 0
   \<and> multiplier (cashOut rnd s) = baseMultiplier GAME_SETTINGS
   \<and> \<not> gameOver (cashOut rnd s)
   \<and> \<not> isPlaying (cashOut rnd s)
   \<and> \<not> isLockedIn (cashOut rnd s)
   \<and> stake (cashOut rnd s) = stake s
   \<and> mineCount (cashOut rnd s) = mineCount s"
  by (simp add: cashOut_def dispatch_def handleCashout_def initialGameState_def arr_some_def
      list_ex_iff)

subsection \<open>Editing the mine count\<close>

text \<open>
  C8 as stated fails: \<open>handleMineCountChange\<close> never compares the new count with 1 or
  with \<open>maxMines\<close>. On the initial state, where no cell is revealed, a count of 0 is
  accepted.
\<close>

theorem hazard_count_range_counterexample:
  "\<not> arr_some (revealed (initialGameState GAME_SETTINGS 5 0 (constDraws 1)))
   \<and> \<not> (1 \<le> (0::real) \<and> (0::real) \<le> real (maxMines GAME_SETTINGS))
   \<and> setHazardCount (constDraws 1) 0 (initialGameState GAME_SETTINGS 5 0 (constDraws 1))
       \<noteq> initialGameState GAME_SETTINGS 5 0 (constDraws 1)
   \<and> mineCount (setHazardCount (constDraws 1) 0
        (initialGameState GAME_SETTINGS 5 0 (constDraws 1))) = 0"
  by (simp add: eval_defs)

text \<open>
  C8, amended. \<open>setHazardCount n\<close> is accepted (the mine count becomes \<open>n\<close> and the
  cells are drawn again, nothing else changes) exactly when no cell is revealed, for every
  \<open>n\<close>, and is a no-op otherwise. The mine count stays in the range from 1 to
  \<open>maxMines\<close> when it was there and the \<open>n\<close> passed in is.
\<close>

theorem setHazardCount_guard:
  "setHazardCount rnd n s =
     (if arr_some (revealed s) then s
      else s\<lparr> blocks := drawBlocks (gridSize GAME_SETTINGS) n rnd, mineCount := n \<rparr>)
   \<and> (1 \<le> mineCount s \<and> mineCount s \<le> real (maxMines GAME_SETTINGS)
        \<and> 1 \<le> n \<and> n \<le> real (maxMines GAME_SETTINGS)
       \<longrightarrow> 1 \<le> mineCount (setHazardCount rnd n s)
           \<and> mineCount (setHazardCount rnd n s) \<le> real (maxMines GAME_SETTINGS))"
  by (simp add: setHazardCount_def handler_defs)

theorem setHazardCount_guard_witness:
  "mineCount (setHazardCount (constDraws 1) 3
      (initialGameState GAME_SETTINGS 5 0 (constDraws 1))) = 3
   \<and> setHazardCount (constDraws 1) 3
        (run compoundMultiplier [Deposit 10, LockIn, Reveal 0]
           (initialGameState GAME_SETTINGS 5 0 (constDraws 1)))
      = run compoundMultiplier [Deposit 10, LockIn, Reveal 0]
           (initialGameState GAME_SETTINGS 5 0 (constDraws 1))"
proof -
  let ?s0 = "initialGameState GAME_SETTINGS 5 0 (constDraws 1)"
  let ?s1 = "run compoundMultiplier [Deposit 10, LockIn, Reveal 0] ?s0"
  have a: "\<not> arr_some (revealed ?s0)" by (simp add: eval_defs)
  have b: "arr_some (revealed ?s1)" by (simp add: eval_defs)
  show ?thesis
    using setHazardCount_guard[of "constDraws 1" 3 ?s0]
      setHazardCount_guard[of "constDraws 1" 3 ?s1] a b by simp
qed

subsection \<open>Negative stakes\<close>

text \<open>
  C9. \<open>setStake\<close> has no lower bound: every new stake up to the balance is stored, a
  negative one too. With such a negative stake, locking in and making the first reveal of
  the round raises the balance by the absolute value of the stake, and cashing out (with a
  multiplier that is not negative, as the multiplier of the data model is) lowers the
  balance by the absolute value of stake times multiplier.
\<close>

theorem setStake_no_lower_bound:
  "(newStake \<le> balance s \<longrightarrow> stake (setStake newStake s) = newStake)
   \<and> (newStake < 0 \<and> newStake \<le> balance s \<and> \<not> gameOver s
        \<and> \<not> arr_get (revealed s) index \<and> \<not> arr_some (revealed s)
       \<longrightarrow> balance (reveal cm index (lockIn (setStake newStake s))) = balance s + \<bar>newStake\<bar>)
   \<and> (newStake < 0 \<and> newStake \<le> balance s \<and> 0 \<le> multiplier s
       \<longrightarrow> balance (cashOut rnd (setStake newStake s)) = balance s - \<bar>newStake * multiplier s\<bar>)"
  by (simp add: action_defs handler_defs Let_def initialGameState_def abs_mult)

theorem setStake_no_lower_bound_witness:
  "stake (setStake (- 5) (initialGameState GAME_SETTINGS 5 0 (constDraws 1))) = - 5
   \<and> balance (reveal compoundMultiplier 0
        (lockIn (setStake (- 5) (initialGameState GAME_SETTINGS 5 0 (constDraws 1))))) = 5
   \<and> balance (cashOut (constDraws 1)
        (setStake (- 5) (initialGameState GAME_SETTINGS 5 0 (constDraws 1)))) = - 6"
proof -
  let ?s = "initialGameState GAME_SETTINGS 5 0 (constDraws 1)"
  have st: "(- 5 :: real) < 0" "- 5 \<le> balance ?s" "\<not> gameOver ?s"
    "\<not> arr_get (revealed ?s) 0" "\<not> arr_some (revealed ?s)" "0 \<le> multiplier ?s"
    "balance ?s = 0" "multiplier ?s = 12 / 10"
    by (simp_all add: eval_defs)
  show ?thesis
    using setStake_no_lower_bound[of "- 5" ?s 0 compoundMultiplier "constDraws 1"] st by simp
qed

subsection \<open>Cash-out after game over\<close>

text \<open>
  C10. \<open>cashOut\<close> has no guard: in every state, a game-over state and a state without
  any reveal included, it credits stake times multiplier. In particular, after an accepted
  reveal that finds no safe cell the game is over, the multiplier is still the one the safe
  reveals built up, and a cash-out adds stake times that multiplier to the balance left
  after the debit.
\<close>

theorem cashOut_unguarded:
  "balance (cashOut rnd s) = balance s + stake s * multiplier s
   \<and> (\<not> arr_get (revealed s) index \<and> \<not> gameOver s \<and> isLockedIn s
        \<and> (arr_some (revealed s) \<or> stake s \<le> balance s)
        \<and> \<not> blocks_get (blocks s) index
       \<longrightarrow> gameOver (reveal cm index s)
           \<and> balance (cashOut rnd (reveal cm index s))
               = balance (reveal cm index s) + stake s * multiplier s)"
  by (auto simp add: action_defs handler_defs Let_def initialGameState_def)

theorem cashOut_unguarded_witness:
  "gameOver (run compoundMultiplier [Deposit 10, SetStake 2, LockIn, Reveal 0, Reveal 1]
      (initialGameState GAME_SETTINGS 5 0 oneSafeDraws))
   \<and> balance (run compoundMultiplier [Deposit 10, SetStake 2, LockIn, Reveal 0, Reveal 1]
      (initialGameState GAME_SETTINGS 5 0 oneSafeDraws)) = 8
   \<and> balance (cashOut (constDraws 1)
       (run compoundMultiplier [Deposit 10, SetStake 2, LockIn, Reveal 0, Reveal 1]
         (initialGameState GAME_SETTINGS 5 0 oneSafeDraws))) = 8 + 2 * (132 / 100)"
proof -
  let ?s = "run compoundMultiplier [Deposit 10, SetStake 2, LockIn, Reveal 0]
              (initialGameState GAME_SETTINGS 5 0 oneSafeDraws)"
  have split: "run compoundMultiplier [Deposit 10, SetStake 2, LockIn, Reveal 0, Reveal 1]
      (initialGameState GAME_SETTINGS 5 0 oneSafeDraws) = reveal compoundMultiplier 1 ?s"
    by (simp add: run_def)
  have st: "\<not> arr_get (revealed ?s) 1" "\<not> gameOver ?s" "isLockedIn ?s"
    "arr_some (revealed ?s)" "\<not> blocks_get (blocks ?s) 1" "stake ?s = 2"
    "multiplier ?s = 132 / 100" "balance ?s = 8"
    by (simp_all add: eval_defs)
  have bal: "balance (reveal compoundMultiplier 1 ?s) = 8"
    using st by (simp add: reveal_def handler_defs Let_def)
  show ?thesis
    unfolding split
    using cashOut_unguarded[of "constDraws 1" "reveal compoundMultiplier 1 ?s" 1 compoundMultiplier]
      cashOut_unguarded[of "constDraws 1" ?s 1 compoundMultiplier] st bal
    by simp
qed

end
